theory Spec2Isabelle
  imports Main "HOL-Library.AList"
begin

section \<open>Python values shared by the report classes\<close>

text \<open>
  The exceptions the report classes can end in. \<open>ValueError\<close> is raised by the
  constructors of the dataset-scoped reports and by \<open>pd.concat\<close>, \<open>KeyError\<close> by a
  dictionary lookup, \<open>IndexError\<close> by \<open>self._models[0]\<close> on an empty list and
  \<open>AttributeError\<close> by a method call on \<open>None\<close>.
\<close>

datatype error = ValueError | KeyError | IndexError | AttributeError

text \<open>
  \<open>print_wrapped(text, type=...)\<close> prints to the console. A function of the model
  returns the messages it printed, in order, next to its result, so that a warning
  is visible in a theorem. An exception keeps the messages printed before it.
\<close>

datatype severity = WARNING | UPDATE

type_synonym message = "severity \<times> string"

type_synonym 'a outcome = "message list \<times> (error + 'a)"

text \<open>
  A list comprehension \<open>[f(x) for x in xs]\<close> whose body may print and may raise:
  the elements are evaluated from left to right and the first exception ends it.
\<close>

fun comprehension :: "('a \<Rightarrow> 'b outcome) \<Rightarrow> 'a list \<Rightarrow> 'b list outcome" where
  "comprehension f [] = ([], Inr [])"
| "comprehension f (x # xs) =
     (case f x of
        (l, Inl e) \<Rightarrow> (l, Inl e)
      | (l, Inr y) \<Rightarrow>
          (case comprehension f xs of
             (l', Inl e) \<Rightarrow> (l @ l', Inl e)
           | (l', Inr ys) \<Rightarrow> (l @ l', Inr (y # ys))))"

subsection \<open>Data frames and their column-wise concatenation\<close>

text \<open>
  A statistics table is a \<open>pd.DataFrame\<close>; the reports only pass tables on and
  concatenate them along \<open>axis=1\<close>, so a table is modelled by the list of its columns,
  from left to right, over an arbitrary type of columns.

  \<open>pd.concat(objs, axis=1)\<close> belongs to pandas. It is modelled as pandas documents
  it: an empty sequence is a \<open>ValueError\<close>, entries that are \<open>None\<close> are dropped
  silently, a sequence of \<open>None\<close> only is a \<open>ValueError\<close>, and the result
  holds the columns of the remaining tables in the order of the sequence. The alignment
  of the rows by index is left out.
\<close>

type_synonym 'c frame = "'c list"

definition pd_concat :: "'c frame option list \<Rightarrow> error + 'c frame" where
  "pd_concat objs =
     (if objs = [] then Inl ValueError
      else (let frames = concat (map (\<lambda>obj. case obj of None \<Rightarrow> [] | Some f \<Rightarrow> [f]) objs)
            in if frames = [] then Inl ValueError else Inr (concat frames)))"

subsection \<open>Dictionaries\<close>

text \<open>
  A Python \<open>dict\<close> keeps its keys in the order of their first insertion, and storing
  under a key that is present replaces the value in place. This is an association list
  under \<^const>\<open>AList.update\<close>. \<open>dict_comprehension\<close> is \<open>{k: v for ...}\<close> over the
  key/value pairs in the order the comprehension produces them.
\<close>

type_synonym ('k, 'v) dict = "('k \<times> 'v) list"

definition dict_comprehension :: "('k \<times> 'v) list \<Rightarrow> ('k, 'v) dict" where
  "dict_comprehension kvs = foldl (\<lambda>d kv. AList.update (fst kv) (snd kv) d) [] kvs"

definition dict_values :: "('k, 'v) dict \<Rightarrow> 'v list" where
  "dict_values d = map snd d"

definition dict_getitem :: "('k, 'v) dict \<Rightarrow> 'k \<Rightarrow> error + 'v" where
  "dict_getitem d k = (case map_of d k of None \<Rightarrow> Inl KeyError | Some v \<Rightarrow> Inr v)"

subsection \<open>Scorers and models\<close>

text \<open>
  The scorer classes and the model base classes (\<open>BaseClassification\<close>,
  \<open>BaseRegression\<close>) are imported by the report modules and are not part of them.
  A record holds what the reports read from such an object. \<open>binary_scorer\<close> is the
  result of \<open>isinstance(scorer, ClassificationBinaryScorer)\<close>; the table fields are
  the results of the methods \<open>stats_df()\<close>, \<open>stats_by_class_df()\<close>, \<open>cv_stats_df()\<close>
  and \<open>cv_stats_by_class_df()\<close>; \<open>y_pred\<close>, \<open>y_pred_score\<close> and \<open>y_true\<close> are the
  attributes \<open>_y_pred\<close>, \<open>_y_pred_score\<close> and \<open>_y_true\<close>.
\<close>

record ('c, 'y) scorer =
  binary_scorer :: bool
  stats_df :: "'c frame"
  stats_by_class_df :: "'c frame"
  cv_stats_df :: "'c frame"
  cv_stats_by_class_df :: "'c frame"
  y_pred :: 'y
  y_pred_score :: 'y
  y_true :: 'y

text \<open>
  A model: \<open>name\<close> is the attribute \<open>_name\<close>, \<open>is_cross_validated\<close> the result of
  \<open>_is_cross_validated()\<close>. The cross-validation scorer and the overall scorer of
  nested cross-validation may be \<open>None\<close>.
\<close>

record ('c, 'y) model =
  name :: string
  train_scorer :: "('c, 'y) scorer"
  test_scorer :: "('c, 'y) scorer"
  cv_scorer :: "('c, 'y) scorer option"
  train_overall_scorer :: "('c, 'y) scorer option"
  is_cross_validated :: bool

section \<open>Classification reports (mlclass.py)\<close>

subsection \<open>SingleModelSingleDatasetMLClassReport\<close>

record ('c, 'y) SingleModelSingleDatasetMLClassReport =
  model_sdc :: "('c, 'y) model"
  is_binary :: bool
  dataset_sdc :: string

definition SingleModelSingleDatasetMLClassReport_init ::
  "('c, 'y) model \<Rightarrow> string \<Rightarrow> error + ('c, 'y) SingleModelSingleDatasetMLClassReport" where
  "SingleModelSingleDatasetMLClassReport_init model dataset =
     (let b = binary_scorer (train_scorer model)
      in if dataset \<notin> set [''train'', ''test''] then Inl ValueError
         else Inr \<lparr>model_sdc = model, is_binary = b, dataset_sdc = dataset\<rparr>)"

definition fit_statistics_sdc :: "('c, 'y) SingleModelSingleDatasetMLClassReport \<Rightarrow> 'c frame" where
  "fit_statistics_sdc self =
     (if dataset_sdc self = ''train'' then stats_df (train_scorer (model_sdc self))
      else stats_df (test_scorer (model_sdc self)))"

definition by_class_warning :: message where
  "by_class_warning =
     (WARNING, ''Fit statistics by class are not '' @ ''available for binary classification.'')"

definition fit_statistics_by_class ::
  "('c, 'y) SingleModelSingleDatasetMLClassReport \<Rightarrow> 'c frame option outcome" where
  "fit_statistics_by_class self =
     (if is_binary self then ([by_class_warning], Inr None)
      else if dataset_sdc self = ''train''
        then ([], Inr (Some (stats_by_class_df (train_scorer (model_sdc self)))))
        else ([], Inr (Some (stats_by_class_df (test_scorer (model_sdc self))))))"

definition not_cross_validated_warning :: message where
  "not_cross_validated_warning =
     (WARNING, ''Cross validation statistics are not available '' @
               ''for models that are not cross-validated.'')"

definition test_data_warning :: message where
  "test_data_warning =
     (WARNING, ''Cross validation statistics are not available for test data.'')"

text \<open>
  \<open>self.model.cv_scorer.stats_df()\<close>: the method call on the attribute, which raises
  \<open>AttributeError\<close> when the attribute is \<open>None\<close>.
\<close>

definition cv_scorer_call ::
  "('c, 'y) model \<Rightarrow> (('c, 'y) scorer \<Rightarrow> 'c frame) \<Rightarrow> 'c frame option outcome" where
  "cv_scorer_call m stat =
     (case cv_scorer m of None \<Rightarrow> ([], Inl AttributeError)
                        | Some s \<Rightarrow> ([], Inr (Some (stat s))))"

text \<open>
  The last branch is the end of the function body, reached when the data set is
  neither \<open>'train'\<close> nor \<open>'test'\<close>: Python returns \<open>None\<close> there, without a message.
\<close>

definition cv_fit_statistics_sdc ::
  "('c, 'y) SingleModelSingleDatasetMLClassReport \<Rightarrow> bool \<Rightarrow> 'c frame option outcome" where
  "cv_fit_statistics_sdc self averaged_across_folds =
     (if \<not> is_cross_validated (model_sdc self) then ([not_cross_validated_warning], Inr None)
      else if dataset_sdc self = ''train''
        then (if averaged_across_folds then cv_scorer_call (model_sdc self) stats_df
              else cv_scorer_call (model_sdc self) cv_stats_df)
      else if dataset_sdc self = ''test'' then ([test_data_warning], Inr None)
      else ([], Inr None))"

definition roc_warning :: message where
  "roc_warning =
     (WARNING, ''ROC curve is not available for '' @ ''multiclass classification.'')"

text \<open>
  The function \<open>plot_roc_curve\<close> of the visualization module draws the figure; it is the
  parameter \<open>plot\<close>, applied to the scores, the true labels, the figure size and the axes.
\<close>

definition plot_roc_curve ::
  "('y \<Rightarrow> 'y \<Rightarrow> 'fs \<Rightarrow> 'ax \<Rightarrow> 'fig) \<Rightarrow> ('c, 'y) SingleModelSingleDatasetMLClassReport \<Rightarrow>
   'fs \<Rightarrow> 'ax \<Rightarrow> 'fig option outcome" where
  "plot_roc_curve plot self figsize ax =
     (if \<not> is_binary self then ([roc_warning], Inr None)
      else
        (let (y_score, y_tr) =
           (if dataset_sdc self = ''train''
            then (case train_overall_scorer (model_sdc self) of
                    Some overall \<Rightarrow> (y_pred_score overall, y_true overall)
                  | None \<Rightarrow> (y_pred_score (train_scorer (model_sdc self)),
                             y_true (train_scorer (model_sdc self))))
            else (y_pred_score (test_scorer (model_sdc self)),
                  y_true (test_scorer (model_sdc self))))
         in ([], Inr (Some (plot y_score y_tr figsize ax)))))"

subsection \<open>SingleModelMLClassReport\<close>

record ('c, 'y) SingleModelMLClassReport =
  model_smc :: "('c, 'y) model"

definition train_report_c ::
  "('c, 'y) SingleModelMLClassReport \<Rightarrow> error + ('c, 'y) SingleModelSingleDatasetMLClassReport" where
  "train_report_c self = SingleModelSingleDatasetMLClassReport_init (model_smc self) ''train''"

definition test_report_c ::
  "('c, 'y) SingleModelMLClassReport \<Rightarrow> error + ('c, 'y) SingleModelSingleDatasetMLClassReport" where
  "test_report_c self = SingleModelSingleDatasetMLClassReport_init (model_smc self) ''test''"

subsection \<open>MLClassificationReport\<close>

text \<open>
  The data handler gives the shared train/test emitter and, for nested cross-validation,
  the emitters of the folds; both methods belong to the \<open>DataHandler\<close> class, which the
  report only calls.
\<close>

record 'e datahandler =
  train_test_emitter :: "string \<Rightarrow> string list \<Rightarrow> 'e"
  kfold_emitters :: "string \<Rightarrow> string list \<Rightarrow> int \<Rightarrow> bool \<Rightarrow> int \<Rightarrow> 'e list"

record ('c, 'y, 'e) MLClassificationReport =
  models_c :: "('c, 'y) model list"
  id_to_model_c :: "(string, ('c, 'y) model) dict"
  y_var_c :: string
  X_vars_c :: "string list"
  emitter_c :: 'e
  emitters_c :: "'e list option"
  verbose_c :: bool
  id_to_report_c :: "(string, ('c, 'y) SingleModelMLClassReport) dict"

definition fitting_message :: "('c, 'y) model \<Rightarrow> message" where
  "fitting_message m = (UPDATE, ''Fitting model '' @ name m @ ''.'')"

definition fitted_message :: "('c, 'y) model \<Rightarrow> message" where
  "fitted_message m = (UPDATE, ''Fitted model '' @ name m @ ''.'')"

text \<open>
  The loop of the constructors over the models: \<open>specify_data\<close> and \<open>fit\<close> are the
  methods of the model classes, parameters here. They change the model object in place,
  so every reference to a model, in the list and in both dictionaries, sees the fitted
  model afterwards. \<open>fit_models\<close> is the list of the models after the loop,
  \<open>fit_log\<close> what the loop prints.
\<close>

definition fit_models ::
  "('e \<Rightarrow> 'e list option \<Rightarrow> ('c, 'y) model \<Rightarrow> ('c, 'y) model) \<Rightarrow> (('c, 'y) model \<Rightarrow> ('c, 'y) model) \<Rightarrow>
   'e \<Rightarrow> 'e list option \<Rightarrow> ('c, 'y) model list \<Rightarrow> ('c, 'y) model list" where
  "fit_models specify_data fit emitter emitters models =
     map (\<lambda>m. fit (specify_data emitter emitters m)) models"

definition fit_log ::
  "('e \<Rightarrow> 'e list option \<Rightarrow> ('c, 'y) model \<Rightarrow> ('c, 'y) model) \<Rightarrow> (('c, 'y) model \<Rightarrow> ('c, 'y) model) \<Rightarrow>
   'e \<Rightarrow> 'e list option \<Rightarrow> bool \<Rightarrow> ('c, 'y) model list \<Rightarrow> message list" where
  "fit_log specify_data fit emitter emitters verbose models =
     concat (map (\<lambda>m. (if verbose then [fitting_message m] else []) @
                       (if verbose then [fitted_message (fit (specify_data emitter emitters m))]
                        else [])) models)"

text \<open>
  The keys of \<open>_id_to_model\<close> are the names read before the loop, those of
  \<open>_id_to_report\<close> the names read after it.
\<close>

definition MLClassificationReport_init ::
  "('e \<Rightarrow> 'e list option \<Rightarrow> ('c, 'y) model \<Rightarrow> ('c, 'y) model) \<Rightarrow> (('c, 'y) model \<Rightarrow> ('c, 'y) model) \<Rightarrow>
   ('c, 'y) model list \<Rightarrow> 'e datahandler \<Rightarrow> string \<Rightarrow> string list \<Rightarrow> int option \<Rightarrow> int \<Rightarrow> bool \<Rightarrow>
   message list \<times> ('c, 'y, 'e) MLClassificationReport" where
  "MLClassificationReport_init specify_data fit models dh y_var X_vars outer_cv outer_cv_seed verbose =
     (let emitter = train_test_emitter dh y_var X_vars;
          emitters = (case outer_cv of None \<Rightarrow> None
                      | Some n \<Rightarrow> Some (kfold_emitters dh y_var X_vars n True outer_cv_seed));
          fitted = fit_models specify_data fit emitter emitters models
      in (fit_log specify_data fit emitter emitters verbose models,
          \<lparr>models_c = fitted,
           id_to_model_c = dict_comprehension (zip (map name models) fitted),
           y_var_c = y_var, X_vars_c = X_vars,
           emitter_c = emitter, emitters_c = emitters, verbose_c = verbose,
           id_to_report_c = dict_comprehension (map (\<lambda>m. (name m, \<lparr>model_smc = m\<rparr>)) fitted)\<rparr>))"

definition model_report_c ::
  "('c, 'y, 'e) MLClassificationReport \<Rightarrow> string \<Rightarrow> error + ('c, 'y) SingleModelMLClassReport" where
  "model_report_c self model_id = dict_getitem (id_to_report_c self) model_id"

definition model_c :: "('c, 'y, 'e) MLClassificationReport \<Rightarrow> string \<Rightarrow> error + ('c, 'y) model" where
  "model_c self model_id = dict_getitem (id_to_model_c self) model_id"

definition getitem_c ::
  "('c, 'y, 'e) MLClassificationReport \<Rightarrow> string \<Rightarrow> error + ('c, 'y) SingleModelMLClassReport" where
  "getitem_c self model_id = dict_getitem (id_to_report_c self) model_id"

text \<open>
  \<open>report.train_report().fit_statistics()\<close>, the body of the comprehensions of
  \<open>fit_statistics\<close>: building the dataset-scoped report may raise, the table itself
  is never \<open>None\<close>.
\<close>

definition train_fit_statistics_c :: "('c, 'y) SingleModelMLClassReport \<Rightarrow> 'c frame option outcome" where
  "train_fit_statistics_c report =
     (case train_report_c report of Inl e \<Rightarrow> ([], Inl e)
                                  | Inr r \<Rightarrow> ([], Inr (Some (fit_statistics_sdc r))))"

definition test_fit_statistics_c :: "('c, 'y) SingleModelMLClassReport \<Rightarrow> 'c frame option outcome" where
  "test_fit_statistics_c report =
     (case test_report_c report of Inl e \<Rightarrow> ([], Inl e)
                                 | Inr r \<Rightarrow> ([], Inr (Some (fit_statistics_sdc r))))"

text \<open>\<open>pd.concat(tables, axis=1)\<close> on the tables of a comprehension.\<close>

definition concat_of :: "'c frame option list outcome \<Rightarrow> 'c frame outcome" where
  "concat_of tables =
     (case tables of (l, Inl e) \<Rightarrow> (l, Inl e) | (l, Inr objs) \<Rightarrow> (l, pd_concat objs))"

definition fit_statistics_c :: "('c, 'y, 'e) MLClassificationReport \<Rightarrow> string \<Rightarrow> 'c frame outcome" where
  "fit_statistics_c self dataset =
     (if dataset = ''train''
      then concat_of (comprehension train_fit_statistics_c (dict_values (id_to_report_c self)))
      else concat_of (comprehension test_fit_statistics_c (dict_values (id_to_report_c self))))"

definition train_cv_fit_statistics_c ::
  "bool \<Rightarrow> ('c, 'y) SingleModelMLClassReport \<Rightarrow> 'c frame option outcome" where
  "train_cv_fit_statistics_c averaged_across_folds report =
     (case train_report_c report of Inl e \<Rightarrow> ([], Inl e)
                                  | Inr r \<Rightarrow> cv_fit_statistics_sdc r averaged_across_folds)"

text \<open>\<open>self._models[0]\<close> raises \<open>IndexError\<close> on the empty list.\<close>

definition cv_fit_statistics_c ::
  "('c, 'y, 'e) MLClassificationReport \<Rightarrow> bool \<Rightarrow> 'c frame option outcome" where
  "cv_fit_statistics_c self averaged_across_folds =
     (case models_c self of
        [] \<Rightarrow> ([], Inl IndexError)
      | first # _ \<Rightarrow>
          if \<not> is_cross_validated first then ([not_cross_validated_warning], Inr None)
          else (case concat_of (comprehension (train_cv_fit_statistics_c averaged_across_folds)
                                  (dict_values (id_to_report_c self))) of
                  (l, Inl e) \<Rightarrow> (l, Inl e)
                | (l, Inr table) \<Rightarrow> (l, Inr (Some table))))"

section \<open>Regression reports (mlreg.py)\<close>

subsection \<open>SingleModelSingleDatasetMLRegReport\<close>

record ('c, 'y) SingleModelSingleDatasetMLRegReport =
  model_sdr :: "('c, 'y) model"
  dataset_sdr :: string

definition SingleModelSingleDatasetMLRegReport_init ::
  "('c, 'y) model \<Rightarrow> string \<Rightarrow> error + ('c, 'y) SingleModelSingleDatasetMLRegReport" where
  "SingleModelSingleDatasetMLRegReport_init model dataset =
     (if dataset \<notin> set [''train'', ''test''] then Inl ValueError
      else Inr \<lparr>model_sdr = model, dataset_sdr = dataset\<rparr>)"

definition fit_statistics_sdr :: "('c, 'y) SingleModelSingleDatasetMLRegReport \<Rightarrow> 'c frame" where
  "fit_statistics_sdr self =
     (if dataset_sdr self = ''train'' then stats_df (train_scorer (model_sdr self))
      else stats_df (test_scorer (model_sdr self)))"

definition cv_fit_statistics_sdr ::
  "('c, 'y) SingleModelSingleDatasetMLRegReport \<Rightarrow> bool \<Rightarrow> 'c frame option outcome" where
  "cv_fit_statistics_sdr self averaged_across_folds =
     (if \<not> is_cross_validated (model_sdr self) then ([not_cross_validated_warning], Inr None)
      else if dataset_sdr self = ''train''
        then (if averaged_across_folds then cv_scorer_call (model_sdr self) stats_df
              else cv_scorer_call (model_sdr self) cv_stats_df)
      else ([test_data_warning], Inr None))"

subsection \<open>SingleModelMLRegReport\<close>

record ('c, 'y) SingleModelMLRegReport =
  model_smr :: "('c, 'y) model"

definition train_report_r ::
  "('c, 'y) SingleModelMLRegReport \<Rightarrow> error + ('c, 'y) SingleModelSingleDatasetMLRegReport" where
  "train_report_r self = SingleModelSingleDatasetMLRegReport_init (model_smr self) ''train''"

definition test_report_r ::
  "('c, 'y) SingleModelMLRegReport \<Rightarrow> error + ('c, 'y) SingleModelSingleDatasetMLRegReport" where
  "test_report_r self = SingleModelSingleDatasetMLRegReport_init (model_smr self) ''test''"

subsection \<open>MLRegressionReport\<close>

record ('c, 'y, 'e) MLRegressionReport =
  models_r :: "('c, 'y) model list"
  id_to_model_r :: "(string, ('c, 'y) model) dict"
  y_var_r :: string
  X_vars_r :: "string list"
  emitter_r :: 'e
  emitters_r :: "'e list option"
  verbose_r :: bool
  id_to_report_r :: "(string, ('c, 'y) SingleModelMLRegReport) dict"

definition MLRegressionReport_init ::
  "('e \<Rightarrow> 'e list option \<Rightarrow> ('c, 'y) model \<Rightarrow> ('c, 'y) model) \<Rightarrow> (('c, 'y) model \<Rightarrow> ('c, 'y) model) \<Rightarrow>
   ('c, 'y) model list \<Rightarrow> 'e datahandler \<Rightarrow> string \<Rightarrow> string list \<Rightarrow> int option \<Rightarrow> int \<Rightarrow> bool \<Rightarrow>
   message list \<times> ('c, 'y, 'e) MLRegressionReport" where
  "MLRegressionReport_init specify_data fit models dh y_var X_vars outer_cv outer_cv_seed verbose =
     (let emitter = train_test_emitter dh y_var X_vars;
          emitters = (case outer_cv of None \<Rightarrow> None
                      | Some n \<Rightarrow> Some (kfold_emitters dh y_var X_vars n True outer_cv_seed));
          fitted = fit_models specify_data fit emitter emitters models
      in (fit_log specify_data fit emitter emitters verbose models,
          \<lparr>models_r = fitted,
           id_to_model_r = dict_comprehension (zip (map name models) fitted),
           y_var_r = y_var, X_vars_r = X_vars,
           emitter_r = emitter, emitters_r = emitters, verbose_r = verbose,
           id_to_report_r = dict_comprehension (map (\<lambda>m. (name m, \<lparr>model_smr = m\<rparr>)) fitted)\<rparr>))"

definition model_report_r ::
  "('c, 'y, 'e) MLRegressionReport \<Rightarrow> string \<Rightarrow> error + ('c, 'y) SingleModelMLRegReport" where
  "model_report_r self model_id = dict_getitem (id_to_report_r self) model_id"

definition model_r :: "('c, 'y, 'e) MLRegressionReport \<Rightarrow> string \<Rightarrow> error + ('c, 'y) model" where
  "model_r self model_id = dict_getitem (id_to_model_r self) model_id"

definition getitem_r ::
  "('c, 'y, 'e) MLRegressionReport \<Rightarrow> string \<Rightarrow> error + ('c, 'y) SingleModelMLRegReport" where
  "getitem_r self model_id = dict_getitem (id_to_report_r self) model_id"

definition train_fit_statistics_r :: "('c, 'y) SingleModelMLRegReport \<Rightarrow> 'c frame option outcome" where
  "train_fit_statistics_r report =
     (case train_report_r report of Inl e \<Rightarrow> ([], Inl e)
                                  | Inr r \<Rightarrow> ([], Inr (Some (fit_statistics_sdr r))))"

definition test_fit_statistics_r :: "('c, 'y) SingleModelMLRegReport \<Rightarrow> 'c frame option outcome" where
  "test_fit_statistics_r report =
     (case test_report_r report of Inl e \<Rightarrow> ([], Inl e)
                                 | Inr r \<Rightarrow> ([], Inr (Some (fit_statistics_sdr r))))"

definition fit_statistics_r :: "('c, 'y, 'e) MLRegressionReport \<Rightarrow> string \<Rightarrow> 'c frame outcome" where
  "fit_statistics_r self dataset =
     (if dataset = ''train''
      then concat_of (comprehension train_fit_statistics_r (dict_values (id_to_report_r self)))
      else concat_of (comprehension test_fit_statistics_r (dict_values (id_to_report_r self))))"

definition train_cv_fit_statistics_r ::
  "bool \<Rightarrow> ('c, 'y) SingleModelMLRegReport \<Rightarrow> 'c frame option outcome" where
  "train_cv_fit_statistics_r averaged_across_folds report =
     (case train_report_r report of Inl e \<Rightarrow> ([], Inl e)
                                  | Inr r \<Rightarrow> cv_fit_statistics_sdr r averaged_across_folds)"

definition cv_fit_statistics_r ::
  "('c, 'y, 'e) MLRegressionReport \<Rightarrow> bool \<Rightarrow> 'c frame option outcome" where
  "cv_fit_statistics_r self averaged_across_folds =
     (case models_r self of
        [] \<Rightarrow> ([], Inl IndexError)
      | first # _ \<Rightarrow>
          if \<not> is_cross_validated first then ([not_cross_validated_warning], Inr None)
          else (case concat_of (comprehension (train_cv_fit_statistics_r averaged_across_folds)
                                  (dict_values (id_to_report_r self))) of
                  (l, Inl e) \<Rightarrow> (l, Inl e)
                | (l, Inr table) \<Rightarrow> (l, Inr (Some table))))"

section \<open>The combined tables as the specification words them\<close>

text \<open>
  The specification says of \<open>fit_statistics\<close> of the multi-model reports that it
  concatenates, column-wise, the statistics table of each model for the requested
  partition, in the order in which the models were supplied. \<open>fit_statistics_claimed\<close>
  is that table, computed from the list of the models.
\<close>

definition fit_statistics_claimed :: "('c, 'y) model list \<Rightarrow> string \<Rightarrow> 'c frame outcome" where
  "fit_statistics_claimed models dataset =
     ([], pd_concat (map (\<lambda>m. Some (stats_df (if dataset = ''train'' then train_scorer m
                                                    else test_scorer m))) models))"

text \<open>
  The specification says of \<open>cv_fit_statistics\<close> of the multi-model reports that it
  looks at the cross-validation flag of the first model only and then concatenates the
  cross-validated train statistics of every model, without checking any other model.
  \<open>cv_fit_statistics_claimed\<close> does that: it calls the cross-validation scorer of each
  model in turn.
\<close>

definition cv_fit_statistics_claimed :: "('c, 'y) model list \<Rightarrow> bool \<Rightarrow> 'c frame option outcome" where
  "cv_fit_statistics_claimed models averaged_across_folds =
     (case models of
        [] \<Rightarrow> ([], Inl IndexError)
      | first # _ \<Rightarrow>
          if \<not> is_cross_validated first then ([not_cross_validated_warning], Inr None)
          else (case concat_of (comprehension
                        (\<lambda>m. cv_scorer_call m (if averaged_across_folds then stats_df
                                                  else cv_stats_df)) models) of
                  (l, Inl e) \<Rightarrow> (l, Inl e)
                | (l, Inr table) \<Rightarrow> (l, Inr (Some table))))"

section \<open>Example models\<close>

text \<open>
  Three fitted models for the concrete instances below: \<open>model_A\<close> is a binary
  classifier fitted with nested cross-validation, \<open>model_B\<close> a multiclass model that was
  never cross-validated, and \<open>model_A2\<close> a second model under the name of the first.
  A column of a table is represented by its label, the scores and the labels of a scorer
  by a string that names them.
\<close>

definition example_scorer :: "string \<Rightarrow> bool \<Rightarrow> (string, string) scorer" where
  "example_scorer tag binary =
     \<lparr>binary_scorer = binary,
      stats_df = [tag @ '' accuracy''],
      stats_by_class_df = [tag @ '' class 0'', tag @ '' class 1'', tag @ '' class 2''],
      cv_stats_df = [tag @ '' fold 0'', tag @ '' fold 1''],
      cv_stats_by_class_df = [tag @ '' fold 0 class 0'', tag @ '' fold 1 class 0''],
      y_pred = tag @ '' predictions'',
      y_pred_score = tag @ '' scores'',
      y_true = tag @ '' labels''\<rparr>"

definition model_A :: "(string, string) model" where
  "model_A =
     \<lparr>name = ''A'',
      train_scorer = example_scorer ''A train'' True,
      test_scorer = example_scorer ''A test'' True,
      cv_scorer = Some (example_scorer ''A cv'' True),
      train_overall_scorer = Some (example_scorer ''A overall'' True),
      is_cross_validated = True\<rparr>"

definition model_B :: "(string, string) model" where
  "model_B =
     \<lparr>name = ''B'',
      train_scorer = example_scorer ''B train'' False,
      test_scorer = example_scorer ''B test'' False,
      cv_scorer = None,
      train_overall_scorer = None,
      is_cross_validated = False\<rparr>"

definition model_A2 :: "(string, string) model" where
  "model_A2 =
     \<lparr>name = ''A'',
      train_scorer = example_scorer ''A2 train'' True,
      test_scorer = example_scorer ''A2 test'' True,
      cv_scorer = Some (example_scorer ''A2 cv'' True),
      train_overall_scorer = None,
      is_cross_validated = True\<rparr>"

definition example_datahandler :: "unit datahandler" where
  "example_datahandler =
     \<lparr>train_test_emitter = (\<lambda>y_var X_vars. ()),
      kfold_emitters = (\<lambda>y_var X_vars n_folds shuffle random_state. replicate (nat n_folds) ())\<rparr>"

definition example_plot :: "string \<Rightarrow> string \<Rightarrow> nat \<times> nat \<Rightarrow> unit option \<Rightarrow> string \<times> string" where
  "example_plot y_score y_tr figsize ax = (y_score, y_tr)"

definition example_report_c :: "(string, string) model list \<Rightarrow> (string, string, unit) MLClassificationReport" where
  "example_report_c models =
     snd (MLClassificationReport_init (\<lambda>emitter emitters m. m) (\<lambda>m. m) models
            example_datahandler ''y'' [''x1'', ''x2''] (Some 5) 42 False)"

definition example_report_r :: "(string, string) model list \<Rightarrow> (string, string, unit) MLRegressionReport" where
  "example_report_r models =
     snd (MLRegressionReport_init (\<lambda>emitter emitters m. m) (\<lambda>m. m) models
            example_datahandler ''y'' [''x1'', ''x2''] (Some 5) 42 False)"

section \<open>Auxiliary facts\<close>

lemma comprehension_all_ok:
  "(\<And>x. x \<in> set xs \<Longrightarrow> f x = (lg x, Inr (g x))) \<Longrightarrow>
   comprehension f xs = (concat (map lg xs), Inr (map g xs))"
  by (induction xs) simp_all

lemma comprehension_silent:
  "(\<And>x. x \<in> set xs \<Longrightarrow> f x = ([], Inr (g x))) \<Longrightarrow> comprehension f xs = ([], Inr (map g xs))"
  by (induction xs) simp_all

lemma update_fresh: "k \<notin> fst ` set d \<Longrightarrow> AList.update k v d = d @ [(k, v)]"
  by (induction d) auto

lemma foldl_update_distinct:
  "distinct (map fst (d @ kvs)) \<Longrightarrow>
   foldl (\<lambda>d kv. AList.update (fst kv) (snd kv) d) d kvs = d @ kvs"
proof (induction kvs arbitrary: d)
  case Nil
  then show ?case by simp
next
  case (Cons kv kvs)
  have fresh: "fst kv \<notin> fst ` set d" using Cons.prems by auto
  have "distinct (map fst ((d @ [kv]) @ kvs))" using Cons.prems by simp
  from Cons.IH [OF this] show ?case
    by (simp add: update_fresh [OF fresh])
qed

lemma dict_comprehension_distinct:
  "distinct (map fst kvs) \<Longrightarrow> dict_comprehension kvs = kvs"
  using foldl_update_distinct [of "[]" kvs] by (simp add: dict_comprehension_def)

lemma map_of_foldl_update:
  "map_of (foldl (\<lambda>d kv. AList.update (fst kv) (snd kv) d) d kvs) = map_of d ++ map_of (rev kvs)"
proof (induction kvs arbitrary: d)
  case Nil
  then show ?case by simp
next
  case (Cons kv kvs)
  show ?case
    by (rule ext) (simp add: Cons.IH update_conv' map_add_def split: option.splits)
qed

lemma map_of_dict_comprehension: "map_of (dict_comprehension kvs) = map_of (rev kvs)"
  by (simp add: dict_comprehension_def map_of_foldl_update)

lemma distinct_foldl_update:
  "distinct (map fst d) \<Longrightarrow>
   distinct (map fst (foldl (\<lambda>d kv. AList.update (fst kv) (snd kv) d) d kvs))"
  by (induction kvs arbitrary: d) (simp_all add: distinct_update)

lemma distinct_dict_comprehension: "distinct (map fst (dict_comprehension kvs))"
  by (simp add: dict_comprehension_def distinct_foldl_update)

lemma map_of_rev_last:
  "k \<in> key ` set xs \<Longrightarrow>
   map_of (rev (map (\<lambda>x. (key x, val x)) xs)) k = Some (val (last (filter (\<lambda>x. key x = k) xs)))"
proof (induction xs rule: rev_induct)
  case Nil
  then show ?case by simp
next
  case (snoc x xs)
  then show ?case by auto
qed

lemma getitem_latest:
  assumes "k \<in> key ` set xs"
  shows "dict_getitem (dict_comprehension (map (\<lambda>x. (key x, val x)) xs)) k =
           Inr (val (last (filter (\<lambda>x. key x = k) xs)))"
  using map_of_rev_last [OF assms, of val]
  by (simp add: dict_getitem_def map_of_dict_comprehension)

lemma zip_map_same: "zip (map f xs) (map g xs) = map (\<lambda>x. (f x, g x)) xs"
  by (induction xs) simp_all

lemma last_zip_filter:
  assumes "m \<in> set models"
  shows "snd (last (filter (\<lambda>p. name (fst p) = name m) (zip models (map g models)))) =
           g (last (filter (\<lambda>m'. name m' = name m) models))"
proof -
  have z: "zip models (map g models) = map (\<lambda>x. (x, g x)) models"
    using zip_map_same [of "\<lambda>x. x" models g] by simp
  have ne: "filter (\<lambda>m'. name m' = name m) models \<noteq> []"
    using assms by (auto simp: filter_empty_conv)
  show ?thesis
    by (simp add: z filter_map o_def last_map [OF ne])
qed

lemma pd_concat_all_some:
  "pd_concat (map (\<lambda>x. Some (g x)) xs) = (if xs = [] then Inl ValueError else Inr (concat (map g xs)))"
proof -
  have "concat (map (\<lambda>obj. case obj of None \<Rightarrow> [] | Some f \<Rightarrow> [f]) (map (\<lambda>x. Some (g x)) xs)) = map g xs"
    by (induction xs) simp_all
  then show ?thesis by (cases xs) (simp_all add: pd_concat_def del: map_map)
qed

lemma pd_concat_filter:
  assumes "\<exists>x \<in> set xs. P x"
  shows "pd_concat (map (\<lambda>x. if P x then Some (g x) else None) xs) = Inr (concat (map g (filter P xs)))"
proof -
  have eq: "concat (map (\<lambda>obj. case obj of None \<Rightarrow> [] | Some f \<Rightarrow> [f])
              (map (\<lambda>x. if P x then Some (g x) else None) xs)) = map g (filter P xs)"
    by (induction xs) simp_all
  have ne: "filter P xs \<noteq> []" using assms by (simp add: filter_empty_conv)
  have "xs \<noteq> []" using assms by auto
  then show ?thesis using ne by (simp add: pd_concat_def eq del: map_map)
qed

lemma warnings_of_filter:
  "concat (map (\<lambda>x. if P x then [] else [w]) xs) = map (\<lambda>x. w) (filter (\<lambda>x. \<not> P x) xs)"
  by (induction xs) simp_all

lemma cv_tables_comprehension:
  assumes step: "\<And>x. x \<in> set xs \<Longrightarrow>
                   f x = (if P x then ([], Inr (Some (table x))) else ([w], Inr None))"
      and some: "\<exists>x \<in> set xs. P x"
  shows "concat_of (comprehension f xs) =
           (map (\<lambda>x. w) (filter (\<lambda>x. \<not> P x) xs), Inr (concat (map table (filter P xs))))"
proof -
  have "comprehension f xs =
          (concat (map (\<lambda>x. if P x then [] else [w]) xs),
           Inr (map (\<lambda>x. if P x then Some (table x) else None) xs))"
    by (rule comprehension_all_ok) (simp add: step)
  then show ?thesis
    by (simp add: concat_of_def warnings_of_filter pd_concat_filter [OF some])
qed

lemma class_init_fields:
  "SingleModelSingleDatasetMLClassReport_init m dataset = Inr r \<Longrightarrow>
   model_sdc r = m \<and> is_binary r = binary_scorer (train_scorer m) \<and> dataset_sdc r = dataset \<and>
   (dataset = ''train'' \<or> dataset = ''test'')"
  by (auto simp: SingleModelSingleDatasetMLClassReport_init_def Let_def split: if_splits)

lemma reg_init_fields:
  "SingleModelSingleDatasetMLRegReport_init m dataset = Inr r \<Longrightarrow>
   model_sdr r = m \<and> dataset_sdr r = dataset \<and> (dataset = ''train'' \<or> dataset = ''test'')"
  by (auto simp: SingleModelSingleDatasetMLRegReport_init_def split: if_splits)

lemma train_fit_statistics_c_eq:
  "train_fit_statistics_c report = ([], Inr (Some (stats_df (train_scorer (model_smc report)))))"
  by (simp add: train_fit_statistics_c_def train_report_c_def
      SingleModelSingleDatasetMLClassReport_init_def fit_statistics_sdc_def)

lemma test_fit_statistics_c_eq:
  "test_fit_statistics_c report = ([], Inr (Some (stats_df (test_scorer (model_smc report)))))"
  by (simp add: test_fit_statistics_c_def test_report_c_def
      SingleModelSingleDatasetMLClassReport_init_def fit_statistics_sdc_def)

lemma train_fit_statistics_r_eq:
  "train_fit_statistics_r report = ([], Inr (Some (stats_df (train_scorer (model_smr report)))))"
  by (simp add: train_fit_statistics_r_def train_report_r_def
      SingleModelSingleDatasetMLRegReport_init_def fit_statistics_sdr_def)

lemma test_fit_statistics_r_eq:
  "test_fit_statistics_r report = ([], Inr (Some (stats_df (test_scorer (model_smr report)))))"
  by (simp add: test_fit_statistics_r_def test_report_r_def
      SingleModelSingleDatasetMLRegReport_init_def fit_statistics_sdr_def)

lemma fit_statistics_c_eq:
  "fit_statistics_c R dataset =
     ([], pd_concat (map (\<lambda>report. Some (stats_df (if dataset = ''train''
                                                        then train_scorer (model_smc report)
                                                        else test_scorer (model_smc report))))
                       (dict_values (id_to_report_c R))))"
  by (simp add: fit_statistics_c_def concat_of_def
      comprehension_silent [where g = "\<lambda>report. Some (stats_df (train_scorer (model_smc report)))"]
      comprehension_silent [where g = "\<lambda>report. Some (stats_df (test_scorer (model_smc report)))"]
      train_fit_statistics_c_eq test_fit_statistics_c_eq)

lemma fit_statistics_r_eq:
  "fit_statistics_r R dataset =
     ([], pd_concat (map (\<lambda>report. Some (stats_df (if dataset = ''train''
                                                        then train_scorer (model_smr report)
                                                        else test_scorer (model_smr report))))
                       (dict_values (id_to_report_r R))))"
  by (simp add: fit_statistics_r_def concat_of_def
      comprehension_silent [where g = "\<lambda>report. Some (stats_df (train_scorer (model_smr report)))"]
      comprehension_silent [where g = "\<lambda>report. Some (stats_df (test_scorer (model_smr report)))"]
      train_fit_statistics_r_eq test_fit_statistics_r_eq)

lemma train_cv_fit_statistics_c_eq:
  "train_cv_fit_statistics_c averaged report =
     (if \<not> is_cross_validated (model_smc report) then ([not_cross_validated_warning], Inr None)
      else cv_scorer_call (model_smc report) (if averaged then stats_df else cv_stats_df))"
  by (simp add: train_cv_fit_statistics_c_def train_report_c_def
      SingleModelSingleDatasetMLClassReport_init_def cv_fit_statistics_sdc_def)

lemma train_cv_fit_statistics_r_eq:
  "train_cv_fit_statistics_r averaged report =
     (if \<not> is_cross_validated (model_smr report) then ([not_cross_validated_warning], Inr None)
      else cv_scorer_call (model_smr report) (if averaged then stats_df else cv_stats_df))"
  by (simp add: train_cv_fit_statistics_r_def train_report_r_def
      SingleModelSingleDatasetMLRegReport_init_def cv_fit_statistics_sdr_def)

lemma cv_scorer_call_present:
  "cv_scorer m \<noteq> None \<Longrightarrow>
   cv_scorer_call m stat = ([], Inr (Some (stat (the (cv_scorer m)))))"
  by (auto simp: cv_scorer_call_def)

lemma init_c_fields:
  assumes "R = snd (MLClassificationReport_init specify_data fit models dh y_var X_vars outer_cv seed verbose)"
  shows "\<exists>g. models_c R = map g models \<and>
             id_to_model_c R = dict_comprehension (map (\<lambda>m. (name m, g m)) models) \<and>
             id_to_report_c R =
               dict_comprehension (map (\<lambda>m. (name m, \<lparr>model_smc = m\<rparr>)) (models_c R))"
  unfolding assms MLClassificationReport_init_def fit_models_def Let_def
  by (rule exI [where x = "\<lambda>m. fit (specify_data (train_test_emitter dh y_var X_vars)
         (case outer_cv of None \<Rightarrow> None
          | Some n \<Rightarrow> Some (kfold_emitters dh y_var X_vars n True seed)) m)"])
     (simp add: zip_map_same)

lemma init_r_fields:
  assumes "R = snd (MLRegressionReport_init specify_data fit models dh y_var X_vars outer_cv seed verbose)"
  shows "\<exists>g. models_r R = map g models \<and>
             id_to_model_r R = dict_comprehension (map (\<lambda>m. (name m, g m)) models) \<and>
             id_to_report_r R =
               dict_comprehension (map (\<lambda>m. (name m, \<lparr>model_smr = m\<rparr>)) (models_r R))"
  unfolding assms MLRegressionReport_init_def fit_models_def Let_def
  by (rule exI [where x = "\<lambda>m. fit (specify_data (train_test_emitter dh y_var X_vars)
         (case outer_cv of None \<Rightarrow> None
          | Some n \<Rightarrow> Some (kfold_emitters dh y_var X_vars n True seed)) m)"])
     (simp add: zip_map_same)

lemma same_models:
  "models_r (snd (MLRegressionReport_init specify_data fit models dh y_var X_vars outer_cv seed verbose)) =
   models_c (snd (MLClassificationReport_init specify_data fit models dh y_var X_vars outer_cv seed verbose))"
  by (simp add: MLRegressionReport_init_def MLClassificationReport_init_def Let_def)

lemma models_c_Nil:
  "models_c (snd (MLClassificationReport_init specify_data fit models dh y_var X_vars outer_cv seed verbose)) = []
     \<longleftrightarrow> models = []"
  by (simp add: MLClassificationReport_init_def fit_models_def Let_def)

lemma reports_c_distinct:
  assumes "R = snd (MLClassificationReport_init specify_data fit models dh y_var X_vars outer_cv seed verbose)"
      and "distinct (map name (models_c R))"
  shows "dict_values (id_to_report_c R) = map (\<lambda>m. \<lparr>model_smc = m\<rparr>) (models_c R)"
proof -
  from init_c_fields [OF assms(1)] have
    "id_to_report_c R = dict_comprehension (map (\<lambda>m. (name m, \<lparr>model_smc = m\<rparr>)) (models_c R))"
    by blast
  moreover have "distinct (map fst (map (\<lambda>m. (name m, \<lparr>model_smc = m\<rparr>)) (models_c R)))"
    using assms(2) by (simp add: o_def)
  ultimately show ?thesis
    by (simp add: dict_comprehension_distinct dict_values_def o_def)
qed

lemma reports_r_distinct:
  assumes "R = snd (MLRegressionReport_init specify_data fit models dh y_var X_vars outer_cv seed verbose)"
      and "distinct (map name (models_r R))"
  shows "dict_values (id_to_report_r R) = map (\<lambda>m. \<lparr>model_smr = m\<rparr>) (models_r R)"
proof -
  from init_r_fields [OF assms(1)] have
    "id_to_report_r R = dict_comprehension (map (\<lambda>m. (name m, \<lparr>model_smr = m\<rparr>)) (models_r R))"
    by blast
  moreover have "distinct (map fst (map (\<lambda>m. (name m, \<lparr>model_smr = m\<rparr>)) (models_r R)))"
    using assms(2) by (simp add: o_def)
  ultimately show ?thesis
    by (simp add: dict_comprehension_distinct dict_values_def o_def)
qed

lemma fit_log_updates:
  "WARNING \<notin> fst ` set (fit_log specify_data fit emitter emitters verbose models)"
  by (auto simp: fit_log_def fitting_message_def fitted_message_def)

lemma example_report_c_eval:
  "models_c (example_report_c ms) = ms"
  by (simp add: example_report_c_def MLClassificationReport_init_def fit_models_def Let_def)

lemma example_report_r_eval:
  "models_r (example_report_r ms) = ms"
  by (simp add: example_report_r_def MLRegressionReport_init_def fit_models_def Let_def)

lemmas example_eval =
  example_report_c_def example_report_r_def MLClassificationReport_init_def
  MLRegressionReport_init_def fit_models_def Let_def dict_comprehension_def dict_values_def
  concat_of_def pd_concat_def model_A_def model_B_def model_A2_def example_scorer_def

section \<open>Dataset-scoped reports\<close>

text \<open>
  Claim C2. The constructors of the dataset-scoped reports, for classification and for
  regression, raise \<open>ValueError\<close> for every data set selector other than the strings
  \<open>'train'\<close> and \<open>'test'\<close>, and succeed for these two; so the data set of every report
  that was constructed is \<open>'train'\<close> or \<open>'test'\<close>.
\<close>

theorem dataset_selector_validated:
  "(dataset \<notin> {''train'', ''test''} \<longrightarrow>
      SingleModelSingleDatasetMLClassReport_init m dataset = Inl ValueError \<and>
      SingleModelSingleDatasetMLRegReport_init m dataset = Inl ValueError) \<and>
   (dataset \<in> {''train'', ''test''} \<longrightarrow>
      SingleModelSingleDatasetMLClassReport_init m dataset =
        Inr \<lparr>model_sdc = m, is_binary = binary_scorer (train_scorer m), dataset_sdc = dataset\<rparr> \<and>
      SingleModelSingleDatasetMLRegReport_init m dataset =
        Inr \<lparr>model_sdr = m, dataset_sdr = dataset\<rparr>) \<and>
   (\<forall>rc. SingleModelSingleDatasetMLClassReport_init m dataset = Inr rc \<longrightarrow>
      dataset_sdc rc \<in> {''train'', ''test''}) \<and>
   (\<forall>rr. SingleModelSingleDatasetMLRegReport_init m dataset = Inr rr \<longrightarrow>
      dataset_sdr rr \<in> {''train'', ''test''})"
  by (auto simp: SingleModelSingleDatasetMLClassReport_init_def
      SingleModelSingleDatasetMLRegReport_init_def Let_def)

text \<open>
  The constructors at \<open>'validation'\<close>, \<open>'test'\<close> and \<open>'train'\<close>.
\<close>

theorem dataset_selector_validated_witness:
  "SingleModelSingleDatasetMLClassReport_init model_A ''validation'' = Inl ValueError \<and>
   SingleModelSingleDatasetMLRegReport_init model_A ''validation'' = Inl ValueError \<and>
   SingleModelSingleDatasetMLClassReport_init model_A ''test'' =
     Inr \<lparr>model_sdc = model_A, is_binary = True, dataset_sdc = ''test''\<rparr> \<and>
   SingleModelSingleDatasetMLRegReport_init model_A ''train'' =
     Inr \<lparr>model_sdr = model_A, dataset_sdr = ''train''\<rparr>"
  using dataset_selector_validated [of "''validation''" model_A]
    dataset_selector_validated [of "''test''" model_A]
    dataset_selector_validated [of "''train''" model_A]
  by (simp add: model_A_def example_scorer_def)

text \<open>
  Claim C3. For a dataset-scoped report of a model \<open>m\<close>, \<open>cv_fit_statistics\<close> returns
  a table exactly when the model is cross-validated and the data set is \<open>'train'\<close>: the
  table \<open>stats_df()\<close> of the cross-validation scorer when \<open>averaged_across_folds\<close> holds,
  its table \<open>cv_stats_df()\<close> otherwise. In every other case it prints one warning and
  returns \<open>None\<close>; it never raises. The model classes are not among the sources: the
  hypothesis is their contract that a cross-validated model has its cross-validation
  scorer \<open>s\<close>.
\<close>

theorem cv_fit_statistics_single_dataset:
  assumes contract: "is_cross_validated m \<longrightarrow> cv_scorer m = Some s"
  shows "(SingleModelSingleDatasetMLClassReport_init m dataset = Inr rc \<longrightarrow>
            cv_fit_statistics_sdc rc averaged_across_folds =
              (if is_cross_validated m \<and> dataset = ''train''
               then ([], Inr (Some (if averaged_across_folds then stats_df s else cv_stats_df s)))
               else if \<not> is_cross_validated m then ([not_cross_validated_warning], Inr None)
               else ([test_data_warning], Inr None))) \<and>
         (SingleModelSingleDatasetMLRegReport_init m dataset = Inr rr \<longrightarrow>
            cv_fit_statistics_sdr rr averaged_across_folds =
              (if is_cross_validated m \<and> dataset = ''train''
               then ([], Inr (Some (if averaged_across_folds then stats_df s else cv_stats_df s)))
               else if \<not> is_cross_validated m then ([not_cross_validated_warning], Inr None)
               else ([test_data_warning], Inr None)))"
proof (intro conjI impI)
  assume "SingleModelSingleDatasetMLClassReport_init m dataset = Inr rc"
  from class_init_fields [OF this] contract
  show "cv_fit_statistics_sdc rc averaged_across_folds =
              (if is_cross_validated m \<and> dataset = ''train''
               then ([], Inr (Some (if averaged_across_folds then stats_df s else cv_stats_df s)))
               else if \<not> is_cross_validated m then ([not_cross_validated_warning], Inr None)
               else ([test_data_warning], Inr None))"
    by (auto simp: cv_fit_statistics_sdc_def cv_scorer_call_def)
next
  assume "SingleModelSingleDatasetMLRegReport_init m dataset = Inr rr"
  from reg_init_fields [OF this] contract
  show "cv_fit_statistics_sdr rr averaged_across_folds =
              (if is_cross_validated m \<and> dataset = ''train''
               then ([], Inr (Some (if averaged_across_folds then stats_df s else cv_stats_df s)))
               else if \<not> is_cross_validated m then ([not_cross_validated_warning], Inr None)
               else ([test_data_warning], Inr None))"
    by (auto simp: cv_fit_statistics_sdr_def cv_scorer_call_def)
qed

text \<open>
  A cross-validated model on \<open>'train'\<close> and on \<open>'test'\<close>, and a model that is not
  cross-validated.
\<close>

theorem cv_fit_statistics_single_dataset_witness:
  "cv_fit_statistics_sdc
     \<lparr>model_sdc = model_A, is_binary = True, dataset_sdc = ''train''\<rparr> False =
     ([], Inr (Some [''A cv fold 0'', ''A cv fold 1''])) \<and>
   cv_fit_statistics_sdr \<lparr>model_sdr = model_A, dataset_sdr = ''test''\<rparr> True =
     ([test_data_warning], Inr None) \<and>
   cv_fit_statistics_sdc
     \<lparr>model_sdc = model_B, is_binary = False, dataset_sdc = ''train''\<rparr> True =
     ([not_cross_validated_warning], Inr None)"
proof -
  have a: "is_cross_validated model_A \<longrightarrow> cv_scorer model_A = Some (example_scorer ''A cv'' True)"
    by (simp add: model_A_def)
  have b: "is_cross_validated model_B \<longrightarrow> cv_scorer model_B = Some (example_scorer ''B cv'' False)"
    by (simp add: model_B_def)
  have ia: "SingleModelSingleDatasetMLClassReport_init model_A ''train'' =
              Inr \<lparr>model_sdc = model_A, is_binary = True, dataset_sdc = ''train''\<rparr>"
    by (simp add: SingleModelSingleDatasetMLClassReport_init_def model_A_def example_scorer_def)
  have ib: "SingleModelSingleDatasetMLClassReport_init model_B ''train'' =
              Inr \<lparr>model_sdc = model_B, is_binary = False, dataset_sdc = ''train''\<rparr>"
    by (simp add: SingleModelSingleDatasetMLClassReport_init_def model_B_def example_scorer_def)
  have ir: "SingleModelSingleDatasetMLRegReport_init model_A ''test'' =
              Inr \<lparr>model_sdr = model_A, dataset_sdr = ''test''\<rparr>"
    by (simp add: SingleModelSingleDatasetMLRegReport_init_def)
  have ca: "is_cross_validated model_A" and cb: "\<not> is_cross_validated model_B"
    by (simp_all add: model_A_def model_B_def)
  show ?thesis
    using cv_fit_statistics_single_dataset [OF a, of "''train''" _ False] ia
      cv_fit_statistics_single_dataset [OF a, of "''test''" _ True] ir
      cv_fit_statistics_single_dataset [OF b, of "''train''" _ True] ib ca cb
    by (simp add: example_scorer_def)
qed

text \<open>
  Claim C5. For a classification report whose train scorer is binary,
  \<open>fit_statistics_by_class\<close> prints a warning and returns \<open>None\<close>, without raising; for
  any other report it returns the table \<open>stats_by_class_df()\<close> of the scorer of the
  report's data set.
\<close>

theorem fit_statistics_by_class_binary:
  assumes "SingleModelSingleDatasetMLClassReport_init m dataset = Inr r"
  shows "fit_statistics_by_class r =
           (if binary_scorer (train_scorer m) then ([by_class_warning], Inr None)
            else ([], Inr (Some (stats_by_class_df
                                   (if dataset = ''train'' then train_scorer m else test_scorer m)))))"
  using class_init_fields [OF assms] by (auto simp: fit_statistics_by_class_def)

text \<open>
  A binary and a multiclass model on \<open>'test'\<close>.
\<close>

theorem fit_statistics_by_class_binary_witness:
  "fit_statistics_by_class \<lparr>model_sdc = model_A, is_binary = True, dataset_sdc = ''test''\<rparr> =
     ([by_class_warning], Inr None) \<and>
   fit_statistics_by_class \<lparr>model_sdc = model_B, is_binary = False, dataset_sdc = ''test''\<rparr> =
     ([], Inr (Some [''B test class 0'', ''B test class 1'', ''B test class 2'']))"
proof -
  have ia: "SingleModelSingleDatasetMLClassReport_init model_A ''test'' =
              Inr \<lparr>model_sdc = model_A, is_binary = True, dataset_sdc = ''test''\<rparr>"
    by (simp add: SingleModelSingleDatasetMLClassReport_init_def model_A_def example_scorer_def)
  have ib: "SingleModelSingleDatasetMLClassReport_init model_B ''test'' =
              Inr \<lparr>model_sdc = model_B, is_binary = False, dataset_sdc = ''test''\<rparr>"
    by (simp add: SingleModelSingleDatasetMLClassReport_init_def model_B_def example_scorer_def)
  show ?thesis
    using fit_statistics_by_class_binary [OF ia] fit_statistics_by_class_binary [OF ib]
    by (simp add: model_A_def model_B_def example_scorer_def)
qed

text \<open>
  Claim C7. \<open>plot_roc_curve\<close> of a classification report prints a warning and returns
  \<open>None\<close> when the task is not binary. When it is binary, the scores and the true
  labels given to the plotting function are those of the overall scorer of the model, if
  the data set is \<open>'train'\<close> and that scorer is present, those of the train scorer, if the
  data set is \<open>'train'\<close> and there is no overall scorer, and those of the test scorer for
  \<open>'test'\<close>.
\<close>

theorem plot_roc_curve_scorer:
  assumes "SingleModelSingleDatasetMLClassReport_init m dataset = Inr r"
  shows "plot_roc_curve plot r figsize ax =
           (if \<not> binary_scorer (train_scorer m) then ([roc_warning], Inr None)
            else (let s = (if dataset = ''train''
                           then (case train_overall_scorer m of Some overall \<Rightarrow> overall
                                                              | None \<Rightarrow> train_scorer m)
                           else test_scorer m)
                  in ([], Inr (Some (plot (y_pred_score s) (y_true s) figsize ax)))))"
  using class_init_fields [OF assms]
  by (auto simp: plot_roc_curve_def Let_def split: option.splits)

text \<open>
  The four cases: an overall scorer, none, the test data, and a multiclass task.
\<close>

theorem plot_roc_curve_scorer_witness:
  "plot_roc_curve example_plot
     \<lparr>model_sdc = model_A, is_binary = True, dataset_sdc = ''train''\<rparr> (5, 5) None =
     ([], Inr (Some (''A overall scores'', ''A overall labels''))) \<and>
   plot_roc_curve example_plot
     \<lparr>model_sdc = model_A2, is_binary = True, dataset_sdc = ''train''\<rparr> (5, 5) None =
     ([], Inr (Some (''A2 train scores'', ''A2 train labels''))) \<and>
   plot_roc_curve example_plot
     \<lparr>model_sdc = model_A, is_binary = True, dataset_sdc = ''test''\<rparr> (5, 5) None =
     ([], Inr (Some (''A test scores'', ''A test labels''))) \<and>
   plot_roc_curve example_plot
     \<lparr>model_sdc = model_B, is_binary = False, dataset_sdc = ''train''\<rparr> (5, 5) None =
     ([roc_warning], Inr None)"
proof -
  have ia: "SingleModelSingleDatasetMLClassReport_init model_A ''train'' =
              Inr \<lparr>model_sdc = model_A, is_binary = True, dataset_sdc = ''train''\<rparr>"
    by (simp add: SingleModelSingleDatasetMLClassReport_init_def model_A_def example_scorer_def)
  have ia2: "SingleModelSingleDatasetMLClassReport_init model_A2 ''train'' =
              Inr \<lparr>model_sdc = model_A2, is_binary = True, dataset_sdc = ''train''\<rparr>"
    by (simp add: SingleModelSingleDatasetMLClassReport_init_def model_A2_def example_scorer_def)
  have it: "SingleModelSingleDatasetMLClassReport_init model_A ''test'' =
              Inr \<lparr>model_sdc = model_A, is_binary = True, dataset_sdc = ''test''\<rparr>"
    by (simp add: SingleModelSingleDatasetMLClassReport_init_def model_A_def example_scorer_def)
  have ib: "SingleModelSingleDatasetMLClassReport_init model_B ''train'' =
              Inr \<lparr>model_sdc = model_B, is_binary = False, dataset_sdc = ''train''\<rparr>"
    by (simp add: SingleModelSingleDatasetMLClassReport_init_def model_B_def example_scorer_def)
  show ?thesis
    using plot_roc_curve_scorer [OF ia, of example_plot "(5, 5)" None]
      plot_roc_curve_scorer [OF ia2, of example_plot "(5, 5)" None]
      plot_roc_curve_scorer [OF it, of example_plot "(5, 5)" None]
      plot_roc_curve_scorer [OF ib, of example_plot "(5, 5)" None]
    by (simp add: model_A_def model_A2_def model_B_def example_scorer_def example_plot_def)
qed

section \<open>Multi-model reports\<close>

text \<open>
  Claim C8. A multi-model report builds both dictionaries with a comprehension over the
  models, so a name that several models share keeps one entry, with the model supplied
  latest under that name: \<open>model_report\<close> and indexing return the report of the last
  model of that name, \<open>model\<close> returns the last model supplied under that name (in its
  fitted state), each name occurs once among the keys, and the constructor, which has no
  failing branch, prints no warning.
\<close>

theorem duplicate_names_latest_wins:
  assumes c: "MLClassificationReport_init specify_data fit models dh y_var X_vars
                outer_cv seed verbose = (logc, Rc)"
      and r: "MLRegressionReport_init specify_data fit models dh y_var X_vars
                outer_cv seed verbose = (logr, Rr)"
  shows "(\<forall>m \<in> set (models_c Rc).
            model_report_c Rc (name m) =
              Inr \<lparr>model_smc = last (filter (\<lambda>m'. name m' = name m) (models_c Rc))\<rparr> \<and>
            getitem_c Rc (name m) =
              Inr \<lparr>model_smc = last (filter (\<lambda>m'. name m' = name m) (models_c Rc))\<rparr>) \<and>
         (\<forall>m \<in> set models.
            model_c Rc (name m) =
              Inr (snd (last (filter (\<lambda>p. name (fst p) = name m) (zip models (models_c Rc)))))) \<and>
         distinct (map fst (id_to_report_c Rc)) \<and> distinct (map fst (id_to_model_c Rc)) \<and>
         WARNING \<notin> fst ` set logc \<and>
         (\<forall>m \<in> set (models_r Rr).
            model_report_r Rr (name m) =
              Inr \<lparr>model_smr = last (filter (\<lambda>m'. name m' = name m) (models_r Rr))\<rparr> \<and>
            getitem_r Rr (name m) =
              Inr \<lparr>model_smr = last (filter (\<lambda>m'. name m' = name m) (models_r Rr))\<rparr>) \<and>
         (\<forall>m \<in> set models.
            model_r Rr (name m) =
              Inr (snd (last (filter (\<lambda>p. name (fst p) = name m) (zip models (models_r Rr)))))) \<and>
         distinct (map fst (id_to_report_r Rr)) \<and> distinct (map fst (id_to_model_r Rr)) \<and>
         WARNING \<notin> fst ` set logr"
proof -
  have Rc: "Rc = snd (MLClassificationReport_init specify_data fit models dh y_var X_vars
                        outer_cv seed verbose)"
    and Rr: "Rr = snd (MLRegressionReport_init specify_data fit models dh y_var X_vars
                        outer_cv seed verbose)"
    by (simp_all add: c r)
  have l: "WARNING \<notin> fst ` set logc" "WARNING \<notin> fst ` set logr"
    using c r fit_log_updates [of specify_data fit _ _ verbose models]
    by (auto simp: MLClassificationReport_init_def MLRegressionReport_init_def Let_def)
  from init_c_fields [OF Rc] obtain g where
    gc: "models_c Rc = map g models"
      "id_to_model_c Rc = dict_comprehension (map (\<lambda>m. (name m, g m)) models)"
      "id_to_report_c Rc =
         dict_comprehension (map (\<lambda>m. (name m, \<lparr>model_smc = m\<rparr>)) (models_c Rc))"
    by blast
  from init_r_fields [OF Rr] obtain h where
    gr: "models_r Rr = map h models"
      "id_to_model_r Rr = dict_comprehension (map (\<lambda>m. (name m, h m)) models)"
      "id_to_report_r Rr =
         dict_comprehension (map (\<lambda>m. (name m, \<lparr>model_smr = m\<rparr>)) (models_r Rr))"
    by blast
  have c1: "\<forall>m \<in> set (models_c Rc).
            model_report_c Rc (name m) =
              Inr \<lparr>model_smc = last (filter (\<lambda>m'. name m' = name m) (models_c Rc))\<rparr> \<and>
            getitem_c Rc (name m) =
              Inr \<lparr>model_smc = last (filter (\<lambda>m'. name m' = name m) (models_c Rc))\<rparr>"
  proof
    fix m assume "m \<in> set (models_c Rc)"
    then have "name m \<in> name ` set (models_c Rc)" by blast
    from getitem_latest [OF this, of "\<lambda>m. \<lparr>model_smc = m\<rparr>"]
    show "model_report_c Rc (name m) =
              Inr \<lparr>model_smc = last (filter (\<lambda>m'. name m' = name m) (models_c Rc))\<rparr> \<and>
            getitem_c Rc (name m) =
              Inr \<lparr>model_smc = last (filter (\<lambda>m'. name m' = name m) (models_c Rc))\<rparr>"
      by (simp add: model_report_c_def getitem_c_def gc(3))
  qed
  have c2: "\<forall>m \<in> set models.
            model_c Rc (name m) =
              Inr (snd (last (filter (\<lambda>p. name (fst p) = name m) (zip models (models_c Rc)))))"
  proof
    fix m assume m: "m \<in> set models"
    then have "name m \<in> name ` set models" by blast
    from getitem_latest [OF this, of g] last_zip_filter [OF m, of g]
    show "model_c Rc (name m) =
              Inr (snd (last (filter (\<lambda>p. name (fst p) = name m) (zip models (models_c Rc)))))"
      by (simp add: model_c_def gc(1) gc(2))
  qed
  have r1: "\<forall>m \<in> set (models_r Rr).
            model_report_r Rr (name m) =
              Inr \<lparr>model_smr = last (filter (\<lambda>m'. name m' = name m) (models_r Rr))\<rparr> \<and>
            getitem_r Rr (name m) =
              Inr \<lparr>model_smr = last (filter (\<lambda>m'. name m' = name m) (models_r Rr))\<rparr>"
  proof
    fix m assume "m \<in> set (models_r Rr)"
    then have "name m \<in> name ` set (models_r Rr)" by blast
    from getitem_latest [OF this, of "\<lambda>m. \<lparr>model_smr = m\<rparr>"]
    show "model_report_r Rr (name m) =
              Inr \<lparr>model_smr = last (filter (\<lambda>m'. name m' = name m) (models_r Rr))\<rparr> \<and>
            getitem_r Rr (name m) =
              Inr \<lparr>model_smr = last (filter (\<lambda>m'. name m' = name m) (models_r Rr))\<rparr>"
      by (simp add: model_report_r_def getitem_r_def gr(3))
  qed
  have r2: "\<forall>m \<in> set models.
            model_r Rr (name m) =
              Inr (snd (last (filter (\<lambda>p. name (fst p) = name m) (zip models (models_r Rr)))))"
  proof
    fix m assume m: "m \<in> set models"
    then have "name m \<in> name ` set models" by blast
    from getitem_latest [OF this, of h] last_zip_filter [OF m, of h]
    show "model_r Rr (name m) =
              Inr (snd (last (filter (\<lambda>p. name (fst p) = name m) (zip models (models_r Rr)))))"
      by (simp add: model_r_def gr(1) gr(2))
  qed
  have d: "distinct (map fst (id_to_report_c Rc))" "distinct (map fst (id_to_model_c Rc))"
    "distinct (map fst (id_to_report_r Rr))" "distinct (map fst (id_to_model_r Rr))"
    by (simp_all only: gc(2) gc(3) gr(2) gr(3) distinct_dict_comprehension)
  from c1 c2 r1 r2 d l show ?thesis by blast
qed

text \<open>
  Three models, the first and the third both named \<open>A\<close>: every lookup of \<open>A\<close> gives
  the third.
\<close>

theorem duplicate_names_latest_wins_witness:
  "model_report_c (example_report_c [model_A, model_B, model_A2]) ''A'' = Inr \<lparr>model_smc = model_A2\<rparr> \<and>
   getitem_c (example_report_c [model_A, model_B, model_A2]) ''A'' = Inr \<lparr>model_smc = model_A2\<rparr> \<and>
   model_c (example_report_c [model_A, model_B, model_A2]) ''A'' = Inr model_A2 \<and>
   model_report_r (example_report_r [model_A, model_B, model_A2]) ''A'' = Inr \<lparr>model_smr = model_A2\<rparr> \<and>
   getitem_r (example_report_r [model_A, model_B, model_A2]) ''A'' = Inr \<lparr>model_smr = model_A2\<rparr> \<and>
   model_r (example_report_r [model_A, model_B, model_A2]) ''A'' = Inr model_A2"
proof -
  have n: "name model_A = ''A''" "name model_A2 = ''A''" "name model_B = ''B''"
    by (simp_all add: model_A_def model_A2_def model_B_def)
  have in1: "model_A \<in> set [model_A, model_B, model_A2]" by simp
  have ic: "MLClassificationReport_init (\<lambda>emitter emitters m. m) (\<lambda>m. m)
              [model_A, model_B, model_A2] example_datahandler ''y'' [''x1'', ''x2''] (Some 5) 42 False =
            ([], example_report_c [model_A, model_B, model_A2])"
    by (simp add: example_report_c_def MLClassificationReport_init_def fit_log_def Let_def)
  have ir: "MLRegressionReport_init (\<lambda>emitter emitters m. m) (\<lambda>m. m)
              [model_A, model_B, model_A2] example_datahandler ''y'' [''x1'', ''x2''] (Some 5) 42 False =
            ([], example_report_r [model_A, model_B, model_A2])"
    by (simp add: example_report_r_def MLRegressionReport_init_def fit_log_def Let_def)
  show ?thesis
    using duplicate_names_latest_wins [OF ic ir] in1
    by (simp add: example_report_c_eval example_report_r_eval n)
qed

text \<open>
  Claim C9. On a multi-model report over an empty collection of models,
  \<open>cv_fit_statistics\<close> raises \<open>IndexError\<close>: it reads \<open>self._models[0]\<close> before anything
  else, and prints no warning.
\<close>

theorem cv_fit_statistics_empty_collection:
  "cv_fit_statistics_c
     (snd (MLClassificationReport_init specify_data fit [] dh y_var X_vars outer_cv seed verbose))
     averaged_across_folds = ([], Inl IndexError) \<and>
   cv_fit_statistics_r
     (snd (MLRegressionReport_init specify_data fit [] dh y_var X_vars outer_cv seed verbose))
     averaged_across_folds = ([], Inl IndexError)"
  by (simp add: cv_fit_statistics_c_def cv_fit_statistics_r_def MLClassificationReport_init_def
      MLRegressionReport_init_def fit_models_def Let_def)

text \<open>
  The reports of the example data handler over no model.
\<close>

theorem cv_fit_statistics_empty_collection_witness:
  "cv_fit_statistics_c (example_report_c []) True = ([], Inl IndexError) \<and>
   cv_fit_statistics_r (example_report_r []) False = ([], Inl IndexError)"
  using cv_fit_statistics_empty_collection
      [of "\<lambda>emitter emitters (m :: (string, string) model). m" "\<lambda>m. m"
      example_datahandler "''y''" "[''x1'', ''x2'']" "Some 5" 42 False True]
    cv_fit_statistics_empty_collection
      [of "\<lambda>emitter emitters (m :: (string, string) model). m" "\<lambda>m. m"
      example_datahandler "''y''" "[''x1'', ''x2'']" "Some 5" 42 False False]
  by (simp add: example_report_c_def example_report_r_def)

text \<open>
  Claim C10. \<open>fit_statistics\<close> of a multi-model report does not validate its argument:
  for every string other than \<open>'train'\<close> it does what it does for \<open>'test'\<close>, prints
  nothing, and for a report that holds at least one model returns the concatenation of
  the test tables of the reports in the dictionary.
\<close>

theorem fit_statistics_dataset_unvalidated:
  assumes "dataset \<noteq> ''train''"
  shows "fit_statistics_c Rc dataset = fit_statistics_c Rc ''test'' \<and>
         fit_statistics_r Rr dataset = fit_statistics_r Rr ''test'' \<and>
         (id_to_report_c Rc \<noteq> [] \<longrightarrow>
            fit_statistics_c Rc dataset =
              ([], Inr (concat (map (\<lambda>report. stats_df (test_scorer (model_smc report)))
                                 (dict_values (id_to_report_c Rc)))))) \<and>
         (id_to_report_r Rr \<noteq> [] \<longrightarrow>
            fit_statistics_r Rr dataset =
              ([], Inr (concat (map (\<lambda>report. stats_df (test_scorer (model_smr report)))
                                 (dict_values (id_to_report_r Rr))))))"
proof -
  have nil: "\<And>d. dict_values d = [] \<longleftrightarrow> d = []"
    by (simp add: dict_values_def)
  show ?thesis
    using assms
    by (simp add: fit_statistics_c_eq fit_statistics_r_eq pd_concat_all_some nil)
qed

text \<open>
  The selector \<open>'validation'\<close> on a report over two models.
\<close>

theorem fit_statistics_dataset_unvalidated_witness:
  "fit_statistics_c (example_report_c [model_A, model_B]) ''validation'' =
     fit_statistics_c (example_report_c [model_A, model_B]) ''test'' \<and>
   fit_statistics_r (example_report_r [model_A, model_B]) ''validation'' =
     fit_statistics_r (example_report_r [model_A, model_B]) ''test'' \<and>
   fit_statistics_c (example_report_c [model_A, model_B]) ''validation'' =
     ([], Inr [''A test accuracy'', ''B test accuracy'']) \<and>
   fit_statistics_r (example_report_r [model_A, model_B]) ''validation'' =
     ([], Inr [''A test accuracy'', ''B test accuracy''])"
proof -
  have v: "''validation'' \<noteq> ''train''" by simp
  have n: "name model_A = ''A''" "name model_B = ''B''"
    by (simp_all add: model_A_def model_B_def)
  have dc: "id_to_report_c (example_report_c [model_A, model_B]) =
              [(''A'', \<lparr>model_smc = model_A\<rparr>), (''B'', \<lparr>model_smc = model_B\<rparr>)]"
    by (simp add: example_report_c_def MLClassificationReport_init_def fit_models_def Let_def
        dict_comprehension_def n)
  have dr: "id_to_report_r (example_report_r [model_A, model_B]) =
              [(''A'', \<lparr>model_smr = model_A\<rparr>), (''B'', \<lparr>model_smr = model_B\<rparr>)]"
    by (simp add: example_report_r_def MLRegressionReport_init_def fit_models_def Let_def
        dict_comprehension_def n)
  have t: "stats_df (test_scorer model_A) = [''A test accuracy'']"
    "stats_df (test_scorer model_B) = [''B test accuracy'']"
    by (simp_all add: model_A_def model_B_def example_scorer_def)
  show ?thesis
    using fit_statistics_dataset_unvalidated [OF v,
        of "example_report_c [model_A, model_B]" "example_report_r [model_A, model_B]"]
    by (auto simp add: dc dr dict_values_def t)
qed

text \<open>
  Claim C6 says that \<open>fit_statistics\<close> of every multi-model report over \<open>N\<close> models
  concatenates the tables of each of the models, in the order in which they were supplied.
  The method iterates over the values of the dictionary of the reports, not over the list
  of the models: for two models of the same name the table holds the columns of the
  second only.
\<close>

theorem fit_statistics_duplicate_names_counterexample:
  "fit_statistics_c (example_report_c [model_A, model_A2]) ''train'' =
     ([], Inr [''A2 train accuracy'']) \<and>
   fit_statistics_r (example_report_r [model_A, model_A2]) ''train'' =
     ([], Inr [''A2 train accuracy'']) \<and>
   fit_statistics_claimed [model_A, model_A2] ''train'' =
     ([], Inr [''A train accuracy'', ''A2 train accuracy'']) \<and>
   fit_statistics_c (example_report_c [model_A, model_A2]) ''train'' \<noteq>
     fit_statistics_claimed [model_A, model_A2] ''train'' \<and>
   fit_statistics_r (example_report_r [model_A, model_A2]) ''train'' \<noteq>
     fit_statistics_claimed [model_A, model_A2] ''train''"
  by (simp add: fit_statistics_c_eq fit_statistics_r_eq fit_statistics_claimed_def example_eval)

text \<open>
  Claim C6, amended: for a multi-model report over models with pairwise distinct names,
  \<open>fit_statistics\<close> returns the column-wise concatenation of the statistics tables of
  the models for the requested partition, in the order in which the models were supplied
  (the train tables for \<open>'train'\<close>, the test tables for any other argument); for at least
  one model this is a table and no error.
\<close>

theorem fit_statistics_distinct_names:
  assumes Rc: "Rc = snd (MLClassificationReport_init specify_data fit models dh y_var X_vars
                            outer_cv seed verbose)"
      and Rr: "Rr = snd (MLRegressionReport_init specify_data fit models dh y_var X_vars
                            outer_cv seed verbose)"
      and distinct: "distinct (map name (models_c Rc))"
  shows "fit_statistics_c Rc dataset = fit_statistics_claimed (models_c Rc) dataset \<and>
         fit_statistics_r Rr dataset = fit_statistics_claimed (models_c Rc) dataset \<and>
         (models \<noteq> [] \<longrightarrow>
            fit_statistics_claimed (models_c Rc) dataset =
              ([], Inr (concat (map (\<lambda>m. stats_df (if dataset = ''train'' then train_scorer m
                                                      else test_scorer m)) (models_c Rc)))))"
proof -
  have eq: "models_r Rr = models_c Rc" by (simp only: Rc Rr same_models)
  have c: "fit_statistics_c Rc dataset = fit_statistics_claimed (models_c Rc) dataset"
    by (simp add: fit_statistics_c_eq fit_statistics_claimed_def
        reports_c_distinct [OF Rc distinct] o_def cong: if_cong)
  have "distinct (map name (models_r Rr))" using distinct eq by simp
  from reports_r_distinct [OF Rr this]
  have r: "fit_statistics_r Rr dataset = fit_statistics_claimed (models_c Rc) dataset"
    by (simp add: fit_statistics_r_eq fit_statistics_claimed_def eq o_def cong: if_cong)
  have ne: "models \<noteq> [] \<longrightarrow>
            fit_statistics_claimed (models_c Rc) dataset =
              ([], Inr (concat (map (\<lambda>m. stats_df (if dataset = ''train'' then train_scorer m
                                                      else test_scorer m)) (models_c Rc))))"
    using models_c_Nil [of specify_data fit models dh y_var X_vars outer_cv seed verbose]
    by (simp add: fit_statistics_claimed_def pd_concat_all_some Rc)
  from c r ne show ?thesis by blast
qed

text \<open>
  Two models with the names \<open>A\<close> and \<open>B\<close>.
\<close>

theorem fit_statistics_distinct_names_witness:
  "fit_statistics_c (example_report_c [model_A, model_B]) ''train'' =
     ([], Inr [''A train accuracy'', ''B train accuracy'']) \<and>
   fit_statistics_r (example_report_r [model_A, model_B]) ''train'' =
     ([], Inr [''A train accuracy'', ''B train accuracy''])"
proof -
  have d: "distinct (map name (models_c (example_report_c [model_A, model_B])))"
    by (simp add: example_report_c_eval model_A_def model_B_def)
  have ne: "[model_A, model_B] \<noteq> []" by simp
  have t: "stats_df (train_scorer model_A) = [''A train accuracy'']"
    "stats_df (train_scorer model_B) = [''B train accuracy'']"
    by (simp_all add: model_A_def model_B_def example_scorer_def)
  show ?thesis
    using fit_statistics_distinct_names [OF example_report_c_def example_report_r_def d,
        of "''train''"] ne
    by (simp add: example_report_c_eval t)
qed

text \<open>
  Claim C4 says that \<open>cv_fit_statistics\<close> of a multi-model report over a non-empty
  collection, when the first model is cross-validated, returns the concatenation of the
  cross-validated train statistics of every model, without checking any other model.
  The method asks the train report of each model, and that report checks its own model:
  for \<open>model_A\<close> (cross-validated) followed by \<open>model_B\<close> (not cross-validated) it
  prints the warning for \<open>model_B\<close> and returns the table of \<open>model_A\<close> alone, where
  calling the cross-validation scorer of each model would fail on \<open>model_B\<close>. For
  two cross-validated models of the same name only the second one contributes.
\<close>

theorem cv_fit_statistics_checks_each_model_counterexample:
  "cv_fit_statistics_c (example_report_c [model_A, model_B]) True =
     ([not_cross_validated_warning], Inr (Some [''A cv accuracy''])) \<and>
   cv_fit_statistics_r (example_report_r [model_A, model_B]) True =
     ([not_cross_validated_warning], Inr (Some [''A cv accuracy''])) \<and>
   cv_fit_statistics_claimed [model_A, model_B] True = ([], Inl AttributeError) \<and>
   cv_fit_statistics_c (example_report_c [model_A, model_B]) True \<noteq>
     cv_fit_statistics_claimed [model_A, model_B] True \<and>
   cv_fit_statistics_r (example_report_r [model_A, model_B]) True \<noteq>
     cv_fit_statistics_claimed [model_A, model_B] True \<and>
   cv_fit_statistics_c (example_report_c [model_A, model_A2]) True =
     ([], Inr (Some [''A2 cv accuracy''])) \<and>
   cv_fit_statistics_r (example_report_r [model_A, model_A2]) True =
     ([], Inr (Some [''A2 cv accuracy''])) \<and>
   cv_fit_statistics_claimed [model_A, model_A2] True =
     ([], Inr (Some [''A cv accuracy'', ''A2 cv accuracy'']))"
  by (simp add: cv_fit_statistics_c_def cv_fit_statistics_r_def cv_fit_statistics_claimed_def
      train_cv_fit_statistics_c_eq train_cv_fit_statistics_r_eq cv_scorer_call_def example_eval)

text \<open>
  Claim C4, amended: for a multi-model report over a non-empty collection of models with
  pairwise distinct names, in which each cross-validated model has its cross-validation
  scorer, \<open>cv_fit_statistics\<close> itself reads the flag of the first model only. If that
  model is not cross-validated, it prints one warning and returns \<open>None\<close>. Otherwise each
  model is checked by its own train report: the result is the column-wise concatenation of
  the cross-validated tables of the cross-validated models, in the order in which the
  models were supplied, and one warning is printed for each model that is not
  cross-validated, whose \<open>None\<close> the concatenation drops.
\<close>

theorem cv_fit_statistics_multi_model:
  assumes Rc: "Rc = snd (MLClassificationReport_init specify_data fit models dh y_var X_vars
                            outer_cv seed verbose)"
      and Rr: "Rr = snd (MLRegressionReport_init specify_data fit models dh y_var X_vars
                            outer_cv seed verbose)"
      and distinct: "distinct (map name (models_c Rc))"
      and contract: "\<forall>m \<in> set (models_c Rc). is_cross_validated m \<longrightarrow> cv_scorer m \<noteq> None"
      and first: "models_c Rc = first # rest"
  shows "cv_fit_statistics_c Rc averaged =
           (if \<not> is_cross_validated first then ([not_cross_validated_warning], Inr None)
            else (map (\<lambda>m. not_cross_validated_warning)
                    (filter (\<lambda>m. \<not> is_cross_validated m) (models_c Rc)),
                  Inr (Some (concat
                    (map (\<lambda>m. (if averaged then stats_df else cv_stats_df) (the (cv_scorer m)))
                       (filter is_cross_validated (models_c Rc))))))) \<and>
         cv_fit_statistics_r Rr averaged = cv_fit_statistics_c Rc averaged"
proof -
  let ?stat = "if averaged then stats_df else cv_stats_df"
  let ?ms = "models_c Rc"
  have eq: "models_r Rr = ?ms" by (simp only: Rc Rr same_models)
  have dr: "distinct (map name (models_r Rr))" using distinct eq by simp
  have vc: "dict_values (id_to_report_c Rc) = map (\<lambda>m. \<lparr>model_smc = m\<rparr>) ?ms"
    by (rule reports_c_distinct [OF Rc distinct])
  have vr: "dict_values (id_to_report_r Rr) = map (\<lambda>m. \<lparr>model_smr = m\<rparr>) ?ms"
    using reports_r_distinct [OF Rr dr] eq by simp
  have stepc: "\<And>r. r \<in> set (map (\<lambda>m. \<lparr>model_smc = m\<rparr>) ?ms) \<Longrightarrow>
          train_cv_fit_statistics_c averaged r =
            (if is_cross_validated (model_smc r)
             then ([], Inr (Some (?stat (the (cv_scorer (model_smc r))))))
             else ([not_cross_validated_warning], Inr None))"
    using contract by (auto simp: train_cv_fit_statistics_c_eq cv_scorer_call_present)
  have stepr: "\<And>r. r \<in> set (map (\<lambda>m. \<lparr>model_smr = m\<rparr>) ?ms) \<Longrightarrow>
          train_cv_fit_statistics_r averaged r =
            (if is_cross_validated (model_smr r)
             then ([], Inr (Some (?stat (the (cv_scorer (model_smr r))))))
             else ([not_cross_validated_warning], Inr None))"
    using contract by (auto simp: train_cv_fit_statistics_r_eq cv_scorer_call_present)
  show ?thesis
  proof (cases "is_cross_validated first")
    case False
    then show ?thesis
      by (simp add: cv_fit_statistics_c_def cv_fit_statistics_r_def first eq)
  next
    case True
    then have somec: "\<exists>r \<in> set (map (\<lambda>m. \<lparr>model_smc = m\<rparr>) ?ms). is_cross_validated (model_smc r)"
      and somer: "\<exists>r \<in> set (map (\<lambda>m. \<lparr>model_smr = m\<rparr>) ?ms). is_cross_validated (model_smr r)"
      using first by simp_all
    have c: "concat_of (comprehension (train_cv_fit_statistics_c averaged)
                          (dict_values (id_to_report_c Rc))) =
             (map (\<lambda>m. not_cross_validated_warning) (filter (\<lambda>m. \<not> is_cross_validated m) ?ms),
              Inr (concat (map (\<lambda>m. ?stat (the (cv_scorer m))) (filter is_cross_validated ?ms))))"
      unfolding vc
      using cv_tables_comprehension [where f = "train_cv_fit_statistics_c averaged"
          and P = "\<lambda>r. is_cross_validated (model_smc r)"
          and table = "\<lambda>r. ?stat (the (cv_scorer (model_smc r)))", OF stepc somec]
      by (simp add: filter_map o_def)
    have r: "concat_of (comprehension (train_cv_fit_statistics_r averaged)
                          (dict_values (id_to_report_r Rr))) =
             (map (\<lambda>m. not_cross_validated_warning) (filter (\<lambda>m. \<not> is_cross_validated m) ?ms),
              Inr (concat (map (\<lambda>m. ?stat (the (cv_scorer m))) (filter is_cross_validated ?ms))))"
      unfolding vr
      using cv_tables_comprehension [where f = "train_cv_fit_statistics_r averaged"
          and P = "\<lambda>r. is_cross_validated (model_smr r)"
          and table = "\<lambda>r. ?stat (the (cv_scorer (model_smr r)))", OF stepr somer]
      by (simp add: filter_map o_def)
    from True show ?thesis
      by (simp add: cv_fit_statistics_c_def cv_fit_statistics_r_def first eq c r)
  qed
qed

text \<open>
  A cross-validated model before and after one that is not.
\<close>

theorem cv_fit_statistics_multi_model_witness:
  "cv_fit_statistics_c (example_report_c [model_A, model_B]) False =
     ([not_cross_validated_warning], Inr (Some [''A cv fold 0'', ''A cv fold 1''])) \<and>
   cv_fit_statistics_r (example_report_r [model_A, model_B]) False =
     ([not_cross_validated_warning], Inr (Some [''A cv fold 0'', ''A cv fold 1''])) \<and>
   cv_fit_statistics_c (example_report_c [model_B, model_A]) True =
     ([not_cross_validated_warning], Inr None) \<and>
   cv_fit_statistics_r (example_report_r [model_B, model_A]) True =
     ([not_cross_validated_warning], Inr None)"
proof -
  have f: "is_cross_validated model_A" "\<not> is_cross_validated model_B"
    "cv_scorer model_A = Some (example_scorer ''A cv'' True)"
    "name model_A = ''A''" "name model_B = ''B''"
    by (simp_all add: model_A_def model_B_def)
  have t: "cv_stats_df (example_scorer ''A cv'' True) = [''A cv fold 0'', ''A cv fold 1'']"
    by (simp add: example_scorer_def)
  have d1: "distinct (map name (models_c (example_report_c [model_A, model_B])))"
    and d2: "distinct (map name (models_c (example_report_c [model_B, model_A])))"
    by (simp_all add: example_report_c_eval f)
  have c1: "\<forall>m \<in> set (models_c (example_report_c [model_A, model_B])).
              is_cross_validated m \<longrightarrow> cv_scorer m \<noteq> None"
    and c2: "\<forall>m \<in> set (models_c (example_report_c [model_B, model_A])).
              is_cross_validated m \<longrightarrow> cv_scorer m \<noteq> None"
    by (simp_all add: example_report_c_eval f)
  have h1: "models_c (example_report_c [model_A, model_B]) = model_A # [model_B]"
    and h2: "models_c (example_report_c [model_B, model_A]) = model_B # [model_A]"
    by (simp_all add: example_report_c_eval)
  show ?thesis
    using cv_fit_statistics_multi_model [OF example_report_c_def example_report_r_def d1 c1 h1,
        of False]
      cv_fit_statistics_multi_model [OF example_report_c_def example_report_r_def d2 c2 h2,
        of True]
    by (simp add: example_report_c_eval f t)
qed

end
